theory Spec2Isabelle
  imports Complex_Main
begin

section \<open>Machine arithmetic\<close>

text \<open>
  Python floats and numpy float64 values are doubles.  A double is modelled by the real
  number it denotes, and a comparison of two doubles is the comparison of these numbers.
  The arithmetic of the source is not the arithmetic of the reals: each operation returns a
  rounded result.  Every arithmetic operation of the source is therefore an operation of the
  record \<open>arithmetic\<close>, which stands for what the machine computes: the four operations
  on doubles, Python's \<^verbatim>\<open>sum\<close> over a list of floats, and numpy's \<^verbatim>\<open>np.dot\<close>,
  \<^verbatim>\<open>np.linalg.norm\<close> and \<^verbatim>\<open>np.mean\<close> on finite values.  A decimal literal that
  is an operand is written as the decimal, and the operation takes it at the value the
  machine reads.  A decimal literal that a double is compared with is the decimal too: in
  the tests \<^verbatim>\<open>x < 0.4\<close>, \<^verbatim>\<open>x < 0.80\<close> and \<^verbatim>\<open>x > 0.7\<close> of the source no
  double lies between the decimal and the double it is read as, on the side that would
  change the answer.  Nothing is assumed of these operations, so every property proved for an
  arbitrary \<open>fl\<close> holds of IEEE-754 arithmetic in every rounding mode and with every
  summation order.  Overflow to an infinity is not modelled: the values at hand are
  confidences and similarities.
\<close>

record arithmetic =
  fadd :: "real \<Rightarrow> real \<Rightarrow> real"
  fsub :: "real \<Rightarrow> real \<Rightarrow> real"
  fmul :: "real \<Rightarrow> real \<Rightarrow> real"
  fdiv :: "real \<Rightarrow> real \<Rightarrow> real"
  fsum :: "real list \<Rightarrow> real"
  np_dot :: "real list \<Rightarrow> real list \<Rightarrow> real"
  np_norm :: "real list \<Rightarrow> real"
  np_mean_values :: "real list \<Rightarrow> real"

text \<open>The arithmetic without rounding: the dot product, the Euclidean norm, the mean.\<close>

definition dot :: "real list \<Rightarrow> real list \<Rightarrow> real" where
  "dot vec1 vec2 = sum_list (map (\<lambda>(a, b). a * b) (zip vec1 vec2))"

definition norm2 :: "real list \<Rightarrow> real" where
  "norm2 vec = sqrt (sum_list (map (\<lambda>a. a * a) vec))"

definition exact_arithmetic :: arithmetic where
  "exact_arithmetic =
     \<lparr>fadd = (\<lambda>a b. a + b), fsub = (\<lambda>a b. a - b), fmul = (\<lambda>a b. a * b),
      fdiv = (\<lambda>a b. a / b), fsum = sum_list, np_dot = dot, np_norm = norm2,
      np_mean_values = (\<lambda>xs. sum_list xs / real (length xs))\<rparr>"

section \<open>Emotion fusion (voice\_tone\_analyzer.py)\<close>

text \<open>Labels are Python strings.\<close>

type_synonym label = string

text \<open>
  \<^verbatim>\<open>combine_emotions(face_emotion, face_conf, voice_emotion, voice_conf)\<close>,
  lines 83-115.  The two \<^verbatim>\<open>float(...)\<close> casts are the identity on floats, so
  the \<^verbatim>\<open>except\<close> branch is not reachable for float arguments.
\<close>

definition voice_weight :: real where
  "voice_weight = 0.4"

definition face_weight :: real where
  "face_weight = 0.6"

definition combine_emotions ::
  "arithmetic \<Rightarrow> label \<Rightarrow> real \<Rightarrow> label \<Rightarrow> real \<Rightarrow> label \<times> real" where
  "combine_emotions fl face_emotion face_conf voice_emotion voice_conf =
     (if face_conf < 0.4 then (voice_emotion, voice_conf)
      else if voice_conf < 0.4 then (face_emotion, face_conf)
      else if face_emotion = voice_emotion then
        (face_emotion,
         min (fmul fl (fadd fl (fmul fl face_conf face_weight) (fmul fl voice_conf voice_weight)) 1.2)
           1.0)
      else if fmul fl voice_conf voice_weight > fmul fl face_conf face_weight then
        (voice_emotion, fmul fl voice_conf voice_weight)
      else (face_emotion, fmul fl face_conf face_weight))"

section \<open>Mood reduction (mood\_manager.py)\<close>

text \<open>\<^verbatim>\<open>combine_moods(face_emotion, voice_sentiment)\<close>, lines 11-23.\<close>

definition combine_moods :: "label \<Rightarrow> label \<Rightarrow> label" where
  "combine_moods face_emotion voice_sentiment =
     (if face_emotion \<in> set [''angry'', ''sad'', ''fear'']
         \<or> voice_sentiment \<in> set [''negative'', ''sad''] then ''low''
      else if face_emotion \<in> set [''happy'', ''surprise'']
         \<or> voice_sentiment \<in> set [''positive'', ''joy''] then ''cheerful''
      else ''neutral'')"

section \<open>Python and numpy helpers\<close>

text \<open>An exception escaping a call is the value \<open>Raised\<close>.\<close>

datatype 'a outcome = Raised | Returned 'a

text \<open>
  A dict whose values are lists, in insertion order:
  \<^verbatim>\<open>if k not in d: d[k] = []\<close> followed by \<^verbatim>\<open>d[k].append(v)\<close>.
\<close>

fun dict_append :: "'k \<Rightarrow> 'v \<Rightarrow> ('k \<times> 'v list) list \<Rightarrow> ('k \<times> 'v list) list" where
  "dict_append k v [] = [(k, [v])]"
| "dict_append k v ((k', vs) # d) =
     (if k = k' then (k', vs @ [v]) # d else (k', vs) # dict_append k v d)"

text \<open>
  \<^verbatim>\<open>max(items, key=f)\<close>: the running maximum is replaced only by a strictly
  greater key, so the first maximal item wins; an empty argument raises ValueError.
\<close>

fun max_from :: "('a \<Rightarrow> real) \<Rightarrow> 'a \<Rightarrow> 'a list \<Rightarrow> 'a" where
  "max_from key best [] = best"
| "max_from key best (x # xs) = max_from key (if key x > key best then x else best) xs"

definition py_max :: "('a \<Rightarrow> real) \<Rightarrow> 'a list \<Rightarrow> 'a outcome" where
  "py_max key items = (case items of [] \<Rightarrow> Raised | x # xs \<Rightarrow> Returned (max_from key x xs))"

text \<open>\<^verbatim>\<open>sum(xs) / len(xs)\<close>; the lists it is applied to are never empty.\<close>

definition average :: "arithmetic \<Rightarrow> real list \<Rightarrow> real" where
  "average fl xs = fdiv fl (fsum fl xs) (real (length xs))"

text \<open>
  A numpy float64 result: a finite value, an infinity or nan.  numpy does not raise on a
  division by zero, it warns and returns nan (for \<open>0 / 0\<close>) or a signed infinity.
\<close>

datatype npfloat = Fin real | PInf | NInf | NaN

definition np_div :: "arithmetic \<Rightarrow> real \<Rightarrow> real \<Rightarrow> npfloat" where
  "np_div fl a b =
     (if b \<noteq> 0 then Fin (fdiv fl a b)
      else if a = 0 then NaN
      else if a > 0 then PInf else NInf)"

fun np_add :: "npfloat \<Rightarrow> npfloat \<Rightarrow> npfloat" where
  "np_add (Fin a) (Fin b) = Fin (a + b)"
| "np_add NaN _ = NaN"
| "np_add _ NaN = NaN"
| "np_add PInf NInf = NaN"
| "np_add NInf PInf = NaN"
| "np_add PInf _ = PInf"
| "np_add _ PInf = PInf"
| "np_add NInf _ = NInf"
| "np_add _ NInf = NInf"

fun finite_values :: "npfloat list \<Rightarrow> real list option" where
  "finite_values [] = Some []"
| "finite_values (Fin a # xs) = map_option (\<lambda>vs. a # vs) (finite_values xs)"
| "finite_values (_ # xs) = None"

text \<open>
  \<^verbatim>\<open>np.mean(xs)\<close>: nan on an empty list, the machine's mean on finite values; an
  infinity or a nan among the values decides the sum, and the division by the count leaves
  it as it is.
\<close>

definition np_mean :: "arithmetic \<Rightarrow> npfloat list \<Rightarrow> npfloat" where
  "np_mean fl xs =
     (if xs = [] then NaN
      else case finite_values xs of
        Some vs \<Rightarrow> Fin (np_mean_values fl vs)
      | None \<Rightarrow> foldl np_add (Fin 0) xs)"

text \<open>\<^verbatim>\<open>a > b\<close> on floats: every comparison with nan is false.\<close>

fun np_gt :: "npfloat \<Rightarrow> npfloat \<Rightarrow> bool" where
  "np_gt (Fin a) (Fin b) = (a > b)"
| "np_gt PInf (Fin _) = True"
| "np_gt PInf NInf = True"
| "np_gt (Fin _) NInf = True"
| "np_gt _ _ = False"

section \<open>Calibration store (emotion\_calibration.py)\<close>

text \<open>
  A row of the table \<^verbatim>\<open>emotion_calibration\<close>: user id, emotion label and the
  decoded embedding.  A failing database access is \<open>Raised\<close>.
\<close>

type_synonym calibration_row = "int \<times> label \<times> real list"

type_synonym database = "calibration_row list outcome"

text \<open>\<^verbatim>\<open>get_user_calibration\<close>, lines 60-83: rows grouped by emotion, \<open>{}\<close> on error.\<close>

definition get_user_calibration :: "database \<Rightarrow> int \<Rightarrow> (label \<times> real list list) list" where
  "get_user_calibration db user_id =
     (case db of
        Raised \<Rightarrow> []
      | Returned table \<Rightarrow>
          foldl (\<lambda>calibration_data (u, emotion, embedding). dict_append emotion embedding calibration_data)
            [] (filter (\<lambda>row. fst row = user_id) table))"

text \<open>\<^verbatim>\<open>has_calibration\<close>, lines 85-97.\<close>

definition has_calibration :: "database \<Rightarrow> int \<Rightarrow> bool" where
  "has_calibration db user_id =
     (case db of
        Raised \<Rightarrow> False
      | Returned table \<Rightarrow> length (filter (\<lambda>row. fst row = user_id) table) > 0)"

text \<open>\<^verbatim>\<open>clear_calibration\<close>, lines 99-110; an error is logged and the table stays.\<close>

definition clear_calibration :: "database \<Rightarrow> int \<Rightarrow> database" where
  "clear_calibration db user_id =
     (case db of
        Raised \<Rightarrow> Raised
      | Returned table \<Rightarrow> Returned (filter (\<lambda>row. fst row \<noteq> user_id) table))"

text \<open>
  \<^verbatim>\<open>cosine_similarity\<close>, lines 112-116.  \<^verbatim>\<open>np.dot\<close> raises ValueError on
  vectors of different lengths; the division is a numpy division.
\<close>

definition cosine_similarity :: "arithmetic \<Rightarrow> real list \<Rightarrow> real list \<Rightarrow> npfloat outcome" where
  "cosine_similarity fl vec1 vec2 =
     (if length vec1 \<noteq> length vec2 then Raised
      else Returned
        (np_div fl (np_dot fl vec1 vec2) (fmul fl (np_norm fl vec1) (np_norm fl vec2))))"

text \<open>The list comprehension of lines 146-149; it raises when one element does.\<close>

fun similarities :: "arithmetic \<Rightarrow> real list \<Rightarrow> real list list \<Rightarrow> npfloat list outcome" where
  "similarities fl current_vector [] = Returned []"
| "similarities fl current_vector (emb # embeddings) =
     (case cosine_similarity fl current_vector emb of
        Raised \<Rightarrow> Raised
      | Returned s \<Rightarrow>
          (case similarities fl current_vector embeddings of
             Raised \<Rightarrow> Raised
           | Returned ss \<Rightarrow> Returned (s # ss)))"

text \<open>The loop of lines 144-154 over \<^verbatim>\<open>calibration_data.items()\<close>.\<close>

fun match_loop ::
  "arithmetic \<Rightarrow> real list \<Rightarrow> (label \<times> real list list) list \<Rightarrow> label option \<times> npfloat
    \<Rightarrow> (label option \<times> npfloat) outcome" where
  "match_loop fl current_vector [] best = Returned best"
| "match_loop fl current_vector ((emotion, embeddings) # rest) (best_match, best_similarity) =
     (case similarities fl current_vector embeddings of
        Raised \<Rightarrow> Raised
      | Returned sims \<Rightarrow>
          (let avg_similarity = np_mean fl sims
           in if np_gt avg_similarity best_similarity
              then match_loop fl current_vector rest (Some emotion, avg_similarity)
              else match_loop fl current_vector rest (best_match, best_similarity)))"

text \<open>
  \<^verbatim>\<open>match_emotion\<close>, lines 118-165.  \<open>represent\<close> is what
  \<^verbatim>\<open>DeepFace.represent\<close> returns for the frame: the embeddings of the faces found.
  Every exception ends in \<^verbatim>\<open>return None, 0.0\<close>.
\<close>

definition match_emotion ::
  "arithmetic \<Rightarrow> database \<Rightarrow> real list list outcome \<Rightarrow> int \<Rightarrow> label option \<times> npfloat" where
  "match_emotion fl db represent user_id =
     (let calibration_data = get_user_calibration db user_id
      in if calibration_data = [] then (None, Fin 0)
         else case represent of
           Raised \<Rightarrow> (None, Fin 0)
         | Returned [] \<Rightarrow> (None, Fin 0)
         | Returned (current_vector # _) \<Rightarrow>
             (case match_loop fl current_vector calibration_data (None, Fin 0) of
                Raised \<Rightarrow> (None, Fin 0)
              | Returned (best_match, best_similarity) \<Rightarrow>
                  if np_gt best_similarity (Fin 0.7) then (best_match, best_similarity)
                  else (None, best_similarity)))"

section \<open>Emotion smoother and cache (emotion\_detector.py)\<close>

record config =
  EMOTION_CACHE_TTL :: int
  EMOTION_CONFIDENCE_THRESHOLD :: real

text \<open>The dict \<^verbatim>\<open>_emotion_cache\<close>, lines 19-23.\<close>

record emotion_cache =
  cache_emotion :: label
  cache_confidence :: npfloat
  cache_timestamp :: real

text \<open>
  The calls a run makes to its external collaborators, in order:
  \<^verbatim>\<open>cap.read()\<close>, \<^verbatim>\<open>calibrator.match_emotion\<close> and \<^verbatim>\<open>DeepFace.analyze\<close>.
\<close>

datatype call = Capture | Personalized_Match | Classify

text \<open>
  The module globals \<^verbatim>\<open>recent_emotions\<close> (a deque with \<^verbatim>\<open>maxlen=8\<close>) and
  \<^verbatim>\<open>_emotion_cache\<close>, together with the record of external calls made so far.
\<close>

record detector_state =
  recent_emotions :: "(label \<times> real) list"
  emotion_cache_of :: emotion_cache
  calls :: "call list"

text \<open>
  What the outside world answers during one run: the two readings of
  \<^verbatim>\<open>time.time()\<close> (at the cache check and at the cache update), whether
  \<^verbatim>\<open>cap.read()\<close> delivered a frame, the calibration table, and the results of
  \<^verbatim>\<open>DeepFace.represent\<close> and \<^verbatim>\<open>DeepFace.analyze\<close> on that frame (the
  dominant emotion and the score of every emotion, in percent).
\<close>

record environment =
  time_at_check :: real
  time_at_update :: real
  ret :: bool
  db :: database
  represent :: "real list list outcome"
  analyze :: "(label \<times> (label \<rightharpoonup> real)) outcome"

definition maxlen :: nat where
  "maxlen = 8"

text \<open>\<^verbatim>\<open>recent_emotions.append(x)\<close>: a full deque drops its oldest element.\<close>

definition deque_append :: "'a \<Rightarrow> 'a list \<Rightarrow> 'a list" where
  "deque_append x xs = drop (length xs + 1 - maxlen) (xs @ [x])"

text \<open>Lines 88-101: the bias correction of the raw classifier output.\<close>

definition bias_correction ::
  "arithmetic \<Rightarrow> label \<Rightarrow> real \<Rightarrow> (label \<rightharpoonup> real) \<Rightarrow> label \<times> real" where
  "bias_correction fl emotion confidence all_emotions =
     (if emotion \<in> set [''fear'', ''sad''] \<and> confidence < 0.80 then
        (let neutral_score =
               fdiv fl (case all_emotions ''neutral'' of None \<Rightarrow> 0 | Some v \<Rightarrow> v) 100.0;
             happy_score =
               fdiv fl (case all_emotions ''happy'' of None \<Rightarrow> 0 | Some v \<Rightarrow> v) 100.0
         in if neutral_score > fsub fl confidence 0.15 then (''neutral'', neutral_score)
            else if happy_score > fsub fl confidence 0.15 then (''happy'', happy_score)
            else (emotion, confidence))
      else (emotion, confidence))"

text \<open>Lines 113-117: the confidences of the window, grouped by emotion.\<close>

definition emotion_scores :: "(label \<times> real) list \<Rightarrow> (label \<times> real list) list" where
  "emotion_scores window = foldl (\<lambda>scores (emo, conf). dict_append emo conf scores) [] window"

text \<open>
  Lines 119-126: the emotion of highest average confidence, replaced by neutral when that
  average is below the threshold.  \<^verbatim>\<open>max\<close> of an empty dict raises.
\<close>

definition smoothing ::
  "arithmetic \<Rightarrow> real \<Rightarrow> (label \<times> real) list \<Rightarrow> (label \<times> real) outcome" where
  "smoothing fl threshold window =
     (case py_max (\<lambda>x. average fl (snd x)) (emotion_scores window) of
        Raised \<Rightarrow> Raised
      | Returned best \<Rightarrow>
          (let stable_emotion = fst best;
               avg_confidence = average fl (snd best)
           in if avg_confidence < threshold then Returned (''neutral'', avg_confidence)
              else Returned (stable_emotion, avg_confidence)))"

text \<open>
  Lines 47-71: the personalised attempt.  It yields the matched pair when the match is
  used, and nothing when the detector falls back to the generic classifier; the flag says
  whether \<^verbatim>\<open>match_emotion\<close> was called.  \<^verbatim>\<open>if user_id:\<close> holds for an
  id that is neither \<^verbatim>\<open>None\<close> nor 0, and \<^verbatim>\<open>if emotion and ...\<close> for a
  label that is neither \<^verbatim>\<open>None\<close> nor the empty string.
\<close>

definition personalized ::
  "arithmetic \<Rightarrow> environment \<Rightarrow> int option \<Rightarrow> (label \<times> npfloat) option \<times> bool" where
  "personalized fl env user_id =
     (case user_id of
        None \<Rightarrow> (None, False)
      | Some u \<Rightarrow>
          if u = 0 then (None, False)
          else if has_calibration (db env) u then
            (case match_emotion fl (db env) (represent env) u of
               (None, confidence) \<Rightarrow> (None, True)
             | (Some emotion, confidence) \<Rightarrow>
                 if emotion \<noteq> [] \<and> np_gt confidence (Fin 0.7)
                 then (Some (emotion, confidence), True)
                 else (None, True))
          else (None, False))"

text \<open>
  Lines 73-136: generic classification, bias correction, smoothing, cache update.  A failure
  of the classifier is caught (lines 105-107); the smoothing runs outside the \<^verbatim>\<open>try\<close>.
\<close>

definition classify_and_smooth ::
  "arithmetic \<Rightarrow> config \<Rightarrow> environment \<Rightarrow> detector_state
    \<Rightarrow> ((label \<times> npfloat) \<times> detector_state) outcome" where
  "classify_and_smooth fl cfg env s =
     (let s1 = s\<lparr>calls := calls s @ [Classify]\<rparr>
      in case analyze env of
           Raised \<Rightarrow> Returned ((''neutral'', Fin 0), s1)
         | Returned (dominant_emotion, all_emotions) \<Rightarrow>
             (case all_emotions dominant_emotion of
                None \<Rightarrow> Returned ((''neutral'', Fin 0), s1)
              | Some score \<Rightarrow>
                  (let sample = bias_correction fl dominant_emotion (fdiv fl score 100.0) all_emotions;
                       window = deque_append sample (recent_emotions s1);
                       s2 = s1\<lparr>recent_emotions := window\<rparr>
                   in case smoothing fl (EMOTION_CONFIDENCE_THRESHOLD cfg) window of
                        Raised \<Rightarrow> Raised
                      | Returned (stable_emotion, avg_confidence) \<Rightarrow>
                          Returned
                            ((stable_emotion, Fin avg_confidence),
                             s2\<lparr>emotion_cache_of :=
                                  \<lparr>cache_emotion = stable_emotion,
                                   cache_confidence = Fin avg_confidence,
                                   cache_timestamp = time_at_update env\<rparr>\<rparr>))))"

text \<open>
  \<^verbatim>\<open>detect_emotion_sync(user_id, bypass_cache)\<close>, lines 26-136.  The difference of
  the two clock readings at line 34 is taken exactly: the timestamp is the initial 0 or an
  earlier reading of the same clock, and the difference of two such doubles is a double.
\<close>

definition detect_emotion_sync ::
  "arithmetic \<Rightarrow> config \<Rightarrow> environment \<Rightarrow> int option \<Rightarrow> bool \<Rightarrow> detector_state
    \<Rightarrow> ((label \<times> npfloat) \<times> detector_state) outcome" where
  "detect_emotion_sync fl cfg env user_id bypass_cache s =
     (if \<not> bypass_cache
         \<and> time_at_check env - cache_timestamp (emotion_cache_of s) < real_of_int (EMOTION_CACHE_TTL cfg)
      then Returned ((cache_emotion (emotion_cache_of s), cache_confidence (emotion_cache_of s)), s)
      else
        (let s1 = s\<lparr>calls := calls s @ [Capture]\<rparr>
         in if \<not> ret env then Returned ((''neutral'', Fin 0), s1)
            else case personalized fl env user_id of
              (Some (emotion, confidence), called) \<Rightarrow>
                Returned
                  ((emotion, confidence),
                   s1\<lparr>calls := calls s1 @ [Personalized_Match],
                      emotion_cache_of :=
                        \<lparr>cache_emotion = emotion, cache_confidence = confidence,
                         cache_timestamp = time_at_update env\<rparr>\<rparr>)
            | (None, called) \<Rightarrow>
                classify_and_smooth fl cfg env
                  (if called then s1\<lparr>calls := calls s1 @ [Personalized_Match]\<rparr> else s1)))"

text \<open>\<^verbatim>\<open>get_cached_emotion()\<close>, lines 146-149.\<close>

definition get_cached_emotion :: "detector_state \<Rightarrow> label \<times> npfloat" where
  "get_cached_emotion s = (cache_emotion (emotion_cache_of s), cache_confidence (emotion_cache_of s))"

section \<open>The stable label, as the specification words it\<close>

text \<open>
  The confidences a label has in the window, their mean as the machine computes it (the
  sum divided by the count), and the position at which the label is first seen.
  \<open>stable_label\<close> says that a label of the window has the highest mean confidence, and
  is the first seen among the labels that reach this mean.
\<close>

definition confidences_of :: "(label \<times> real) list \<Rightarrow> label \<Rightarrow> real list" where
  "confidences_of window l = map snd (filter (\<lambda>p. fst p = l) window)"

definition mean_confidence :: "arithmetic \<Rightarrow> (label \<times> real) list \<Rightarrow> label \<Rightarrow> real" where
  "mean_confidence fl window l =
     fdiv fl (fsum fl (confidences_of window l)) (real (length (confidences_of window l)))"

definition first_seen :: "(label \<times> real) list \<Rightarrow> label \<Rightarrow> nat" where
  "first_seen window l = length (takeWhile (\<lambda>p. fst p \<noteq> l) window)"

definition labels_in_order :: "(label \<times> real) list \<Rightarrow> label list" where
  "labels_in_order window = rev (remdups (rev (map fst window)))"

definition stable_label :: "arithmetic \<Rightarrow> (label \<times> real) list \<Rightarrow> label \<Rightarrow> bool" where
  "stable_label fl window l \<longleftrightarrow>
     l \<in> fst ` set window
     \<and> (\<forall>k \<in> fst ` set window.
           mean_confidence fl window k \<le> mean_confidence fl window l
           \<and> (mean_confidence fl window k = mean_confidence fl window l
                \<longrightarrow> first_seen window l \<le> first_seen window k))"

section \<open>Cosine similarity, as the specification words it\<close>

text \<open>
  A vector is nonzero when one of its components is.  The product of the norms of two
  vectors is the divisor of their cosine similarity.  The average similarity of a label is
  the mean, over the samples stored for it, of the dot product over the product of norms,
  all as the machine computes them.
\<close>

definition nonzero :: "real list \<Rightarrow> bool" where
  "nonzero vec \<longleftrightarrow> (\<exists>x \<in> set vec. x \<noteq> 0)"

definition norm_product :: "arithmetic \<Rightarrow> real list \<Rightarrow> real list \<Rightarrow> real" where
  "norm_product fl vec1 vec2 = fmul fl (np_norm fl vec1) (np_norm fl vec2)"

definition average_similarity :: "arithmetic \<Rightarrow> real list \<Rightarrow> real list list \<Rightarrow> real" where
  "average_similarity fl current_vector embeddings =
     np_mean_values fl
       (map (\<lambda>emb. fdiv fl (np_dot fl current_vector emb) (norm_product fl current_vector emb))
          embeddings)"

section \<open>Properties of the fusion\<close>

text \<open>
  C4.  A signal whose confidence is below 0.4 is discarded and the other signal is returned
  as it was given, label and confidence, with no re-weighting: a weak face signal gives the
  voice signal, and a weak voice signal (the face signal not being weak) gives the face
  signal.  With face (sad, 0.3) and voice (happy, 0.9) the result is (happy, 0.9).
\<close>

theorem combine_emotions_weak_signal:
  "(face_conf < 0.4 \<longrightarrow>
      combine_emotions fl face_emotion face_conf voice_emotion voice_conf
      = (voice_emotion, voice_conf))
   \<and> (voice_conf < 0.4 \<and> \<not> face_conf < 0.4 \<longrightarrow>
      combine_emotions fl face_emotion face_conf voice_emotion voice_conf
      = (face_emotion, face_conf))"
  by (simp add: combine_emotions_def)

theorem combine_emotions_weak_signal_witness:
  "\<forall>fl. (0.3::real) < 0.4 \<and> combine_emotions fl ''sad'' 0.3 ''happy'' 0.9 = (''happy'', 0.9)
     \<and> (0.3::real) < 0.4 \<and> \<not> (0.9::real) < 0.4
     \<and> combine_emotions fl ''sad'' 0.9 ''happy'' 0.3 = (''sad'', 0.9)"
proof
  fix fl
  show "(0.3::real) < 0.4 \<and> combine_emotions fl ''sad'' 0.3 ''happy'' 0.9 = (''happy'', 0.9)
     \<and> (0.3::real) < 0.4 \<and> \<not> (0.9::real) < 0.4
     \<and> combine_emotions fl ''sad'' 0.9 ''happy'' 0.3 = (''sad'', 0.9)"
    using combine_emotions_weak_signal [where fl = fl and face_conf = "0.3"
        and face_emotion = "''sad''" and voice_emotion = "''happy''" and voice_conf = "0.9"]
      combine_emotions_weak_signal [where fl = fl and face_conf = "0.9"
        and face_emotion = "''sad''" and voice_emotion = "''happy''" and voice_conf = "0.3"]
    by simp
qed

text \<open>
  C5.  When both confidences are at least 0.4 and the two labels are equal, the result is
  that label with confidence min(1.0, (faceConf * 0.6 + voiceConf * 0.4) * 1.2): the
  formula is evaluated in the machine's arithmetic, and in exact arithmetic it is the
  number the formula denotes.  With (happy, 0.8) on both sides that number is 0.96.
\<close>

theorem combine_emotions_agreement:
  assumes "0.4 \<le> face_conf" and "0.4 \<le> voice_conf" and "face_emotion = voice_emotion"
  shows "combine_emotions fl face_emotion face_conf voice_emotion voice_conf
         = (face_emotion,
            min 1.0 (fmul fl (fadd fl (fmul fl face_conf 0.6) (fmul fl voice_conf 0.4)) 1.2))
         \<and> combine_emotions exact_arithmetic face_emotion face_conf voice_emotion voice_conf
         = (face_emotion, min 1.0 ((face_conf * 0.6 + voice_conf * 0.4) * 1.2))"
  using assms
  by (simp add: combine_emotions_def face_weight_def voice_weight_def exact_arithmetic_def
      min.commute)

theorem combine_emotions_agreement_witness:
  "(0.4::real) \<le> 0.8 \<and> ''happy'' = ''happy''
   \<and> combine_emotions exact_arithmetic ''happy'' 0.8 ''happy'' 0.8 = (''happy'', 0.96)"
  using combine_emotions_agreement [where fl = exact_arithmetic and face_conf = "0.8"
      and face_emotion = "''happy''" and voice_emotion = "''happy''" and voice_conf = "0.8"]
  by (simp add: exact_arithmetic_def)

text \<open>
  C6.  When both confidences are at least 0.4 and the labels differ, the signal with the
  larger weighted value (faceConf * 0.6 against voiceConf * 0.4, the two products as the
  machine computes them) wins and is returned with its weighted value as confidence; when
  the two weighted values are equal the face signal is returned.
\<close>

theorem combine_emotions_disagreement:
  assumes "0.4 \<le> face_conf" and "0.4 \<le> voice_conf" and "face_emotion \<noteq> voice_emotion"
  shows "(fmul fl voice_conf 0.4 > fmul fl face_conf 0.6 \<longrightarrow>
            combine_emotions fl face_emotion face_conf voice_emotion voice_conf
            = (voice_emotion, fmul fl voice_conf 0.4))
         \<and> (fmul fl face_conf 0.6 > fmul fl voice_conf 0.4 \<longrightarrow>
            combine_emotions fl face_emotion face_conf voice_emotion voice_conf
            = (face_emotion, fmul fl face_conf 0.6))
         \<and> (fmul fl face_conf 0.6 = fmul fl voice_conf 0.4 \<longrightarrow>
            combine_emotions fl face_emotion face_conf voice_emotion voice_conf
            = (face_emotion, fmul fl face_conf 0.6))"
  using assms by (simp add: combine_emotions_def face_weight_def voice_weight_def)

theorem combine_emotions_disagreement_witness:
  "combine_emotions exact_arithmetic ''sad'' 0.5 ''happy'' 0.9 = (''happy'', 0.36)
   \<and> combine_emotions exact_arithmetic ''sad'' 0.9 ''happy'' 0.5 = (''sad'', 0.54)
   \<and> combine_emotions exact_arithmetic ''sad'' 0.4 ''happy'' 0.6 = (''sad'', 0.24)"
  using combine_emotions_disagreement [where fl = exact_arithmetic and face_conf = "0.5"
      and face_emotion = "''sad''" and voice_emotion = "''happy''" and voice_conf = "0.9"]
    combine_emotions_disagreement [where fl = exact_arithmetic and face_conf = "0.9"
      and face_emotion = "''sad''" and voice_emotion = "''happy''" and voice_conf = "0.5"]
    combine_emotions_disagreement [where fl = exact_arithmetic and face_conf = "0.4"
      and face_emotion = "''sad''" and voice_emotion = "''happy''" and voice_conf = "0.6"]
  by (simp add: exact_arithmetic_def)

text \<open>
  C10.  When the face confidence and the voice confidence are both below 0.4, the voice
  signal is returned unchanged: the test of the face confidence comes first.
\<close>

theorem combine_emotions_both_weak:
  assumes "face_conf < 0.4" and "voice_conf < 0.4"
  shows "combine_emotions fl face_emotion face_conf voice_emotion voice_conf
         = (voice_emotion, voice_conf)"
  using assms by (simp add: combine_emotions_def)

theorem combine_emotions_both_weak_witness:
  "\<forall>fl. (0.3::real) < 0.4 \<and> (0.2::real) < 0.4
     \<and> combine_emotions fl ''sad'' 0.3 ''happy'' 0.2 = (''happy'', 0.2)"
proof
  fix fl
  show "(0.3::real) < 0.4 \<and> (0.2::real) < 0.4
     \<and> combine_emotions fl ''sad'' 0.3 ''happy'' 0.2 = (''happy'', 0.2)"
    using combine_emotions_both_weak [where fl = fl and face_conf = "0.3"
        and face_emotion = "''sad''" and voice_emotion = "''happy''" and voice_conf = "0.2"]
    by simp
qed

section \<open>Properties of the mood reduction\<close>

text \<open>
  C7.  The mood is low if the face label is one of angry, sad, fear or the voice sentiment
  is one of negative, sad; otherwise it is cheerful if the face label is one of happy,
  surprise or the voice sentiment is one of positive, joy; otherwise it is neutral.  Face
  angry with voice neutral gives low.
\<close>

theorem combine_moods_priority:
  "(face_emotion \<in> {''angry'', ''sad'', ''fear''} \<or> voice_sentiment \<in> {''negative'', ''sad''}
      \<longrightarrow> combine_moods face_emotion voice_sentiment = ''low'')
   \<and> (\<not> (face_emotion \<in> {''angry'', ''sad'', ''fear''} \<or> voice_sentiment \<in> {''negative'', ''sad''})
      \<and> (face_emotion \<in> {''happy'', ''surprise''} \<or> voice_sentiment \<in> {''positive'', ''joy''})
      \<longrightarrow> combine_moods face_emotion voice_sentiment = ''cheerful'')
   \<and> (\<not> (face_emotion \<in> {''angry'', ''sad'', ''fear''} \<or> voice_sentiment \<in> {''negative'', ''sad''})
      \<and> \<not> (face_emotion \<in> {''happy'', ''surprise''} \<or> voice_sentiment \<in> {''positive'', ''joy''})
      \<longrightarrow> combine_moods face_emotion voice_sentiment = ''neutral'')"
  by (simp add: combine_moods_def)

theorem combine_moods_priority_witness:
  "combine_moods ''angry'' ''neutral'' = ''low''
   \<and> combine_moods ''happy'' ''sad'' = ''low''
   \<and> combine_moods ''neutral'' ''joy'' = ''cheerful''
   \<and> combine_moods ''neutral'' ''neutral'' = ''neutral''"
  using combine_moods_priority [of "''angry''" "''neutral''"]
    combine_moods_priority [of "''happy''" "''sad''"]
    combine_moods_priority [of "''neutral''" "''joy''"]
    combine_moods_priority [of "''neutral''" "''neutral''"]
  by simp

section \<open>Properties of the smoothing window\<close>

subsection \<open>The grouped scores, in closed form\<close>

lemma labels_in_order_snoc:
  "labels_in_order (w @ [p]) =
     (if fst p \<in> fst ` set w then labels_in_order w else labels_in_order w @ [fst p])"
  by (simp add: labels_in_order_def)

lemma set_labels_in_order: "set (labels_in_order w) = fst ` set w"
  by (simp add: labels_in_order_def)

lemma distinct_labels_in_order: "distinct (labels_in_order w)"
  by (simp add: labels_in_order_def)

lemma dict_append_map:
  "dict_append k v (map (\<lambda>l. (l, f l)) ls) =
     (if k \<in> set ls then map (\<lambda>l. (l, if l = k then f l @ [v] else f l)) ls
      else map (\<lambda>l. (l, f l)) ls @ [(k, [v])])" if "distinct ls"
  using that by (induction ls) auto

lemma emotion_scores_snoc:
  "emotion_scores (w @ [(k, v)]) = dict_append k v (emotion_scores w)"
  by (simp add: emotion_scores_def)

lemma confidences_of_snoc:
  "confidences_of (w @ [(k, v)]) l = (if l = k then confidences_of w l @ [v] else confidences_of w l)"
  by (simp add: confidences_of_def)

lemma confidences_of_fresh: "k \<notin> fst ` set w \<Longrightarrow> confidences_of w k = []"
  by (induction w) (auto simp: confidences_of_def)

lemma emotion_scores_closed:
  "emotion_scores w = map (\<lambda>l. (l, confidences_of w l)) (labels_in_order w)"
proof (induction w rule: rev_induct)
  case Nil
  show ?case by (simp add: emotion_scores_def labels_in_order_def)
next
  case (snoc p w)
  obtain k v where p: "p = (k, v)" by (cases p)
  show ?case
  proof (cases "k \<in> fst ` set w")
    case True
    then show ?thesis
      using snoc distinct_labels_in_order [of w]
      by (simp add: p emotion_scores_snoc dict_append_map labels_in_order_snoc
          set_labels_in_order confidences_of_snoc)
  next
    case False
    then have "map (\<lambda>l. (l, confidences_of (w @ [(k, v)]) l)) (labels_in_order w)
               = map (\<lambda>l. (l, confidences_of w l)) (labels_in_order w)"
      by (auto simp: confidences_of_snoc set_labels_in_order)
    with False show ?thesis
      using snoc distinct_labels_in_order [of w]
      by (simp add: p emotion_scores_snoc dict_append_map labels_in_order_snoc
          set_labels_in_order confidences_of_snoc confidences_of_fresh)
  qed
qed

lemma max_from_cases:
  "(max_from key b xs = b \<and> (\<forall>z \<in> set xs. key z \<le> key b))
   \<or> (\<exists>ys zs. xs = ys @ max_from key b xs # zs \<and> key b < key (max_from key b xs)
         \<and> (\<forall>y \<in> set ys. key y < key (max_from key b xs))
         \<and> (\<forall>z \<in> set zs. key z \<le> key (max_from key b xs)))"
proof (induction xs arbitrary: b)
  case Nil
  show ?case by simp
next
  case (Cons x xs)
  let ?b' = "if key x > key b then x else b"
  let ?m = "max_from key ?b' xs"
  have m: "max_from key b (x # xs) = ?m" by simp
  from Cons [of ?b'] consider
    (stay) "?m = ?b'" "\<forall>z \<in> set xs. key z \<le> key ?b'"
    | (move) ys zs where "xs = ys @ ?m # zs" "key ?b' < key ?m"
        "\<forall>y \<in> set ys. key y < key ?m" "\<forall>z \<in> set zs. key z \<le> key ?m"
    by blast
  then show ?case
  proof cases
    case stay
    show ?thesis
    proof (cases "key x > key b")
      case True
      with stay have "x # xs = [] @ ?m # xs" "key b < key ?m" "\<forall>z \<in> set xs. key z \<le> key ?m"
        by simp_all
      then show ?thesis unfolding m by (metis empty_iff list.set(1))
    next
      case False
      with stay show ?thesis unfolding m by auto
    qed
  next
    case move
    have "x # xs = (x # ys) @ ?m # zs" using move(1) by simp
    moreover have "key b < key ?m" using move(2) by (auto split: if_splits)
    moreover have "\<forall>y \<in> set (x # ys). key y < key ?m"
      using move(2,3) by (auto split: if_splits)
    ultimately show ?thesis unfolding m using move(4) by blast
  qed
qed

lemma py_max_first_maximal:
  assumes "py_max key items = Returned m"
  shows "\<exists>ys zs. items = ys @ m # zs
           \<and> (\<forall>y \<in> set ys. key y < key m) \<and> (\<forall>z \<in> set zs. key z \<le> key m)"
proof (cases items)
  case Nil
  with assms show ?thesis by (simp add: py_max_def)
next
  case (Cons x xs)
  with assms have m: "m = max_from key x xs" by (simp add: py_max_def)
  from max_from_cases [of key x xs] show ?thesis
  proof
    assume "max_from key x xs = x \<and> (\<forall>z \<in> set xs. key z \<le> key x)"
    then have "items = [] @ m # xs" "\<forall>z \<in> set xs. key z \<le> key m"
      using Cons m by simp_all
    then show ?thesis by (metis empty_iff list.set(1))
  next
    assume "\<exists>ys zs. xs = ys @ max_from key x xs # zs \<and> key x < key (max_from key x xs)
         \<and> (\<forall>y \<in> set ys. key y < key (max_from key x xs))
         \<and> (\<forall>z \<in> set zs. key z \<le> key (max_from key x xs))"
    then obtain ys zs where "xs = ys @ m # zs" "key x < key m"
      "\<forall>y \<in> set ys. key y < key m" "\<forall>z \<in> set zs. key z \<le> key m"
      unfolding m by blast
    then have "items = (x # ys) @ m # zs" "\<forall>y \<in> set (x # ys). key y < key m"
      using Cons by simp_all
    with \<open>\<forall>z \<in> set zs. key z \<le> key m\<close> show ?thesis by blast
  qed
qed

lemma first_seen_snoc:
  "first_seen (w @ [p]) l = (if l \<in> fst ` set w then first_seen w l else
     if fst p = l then length w else Suc (length w))"
  by (induction w) (auto simp: first_seen_def)

lemma first_seen_less: "l \<in> fst ` set w \<Longrightarrow> first_seen w l < length w"
  by (induction w) (auto simp: first_seen_def)

lemma labels_in_order_sorted:
  "sorted_wrt (\<lambda>a b. first_seen w a < first_seen w b) (labels_in_order w)"
proof (induction w rule: rev_induct)
  case Nil
  show ?case by (simp add: labels_in_order_def)
next
  case (snoc p w)
  have same: "sorted_wrt (\<lambda>a b. first_seen (w @ [p]) a < first_seen (w @ [p]) b) (labels_in_order w)"
    using snoc
    by (rule sorted_wrt_mono_rel [rotated]) (simp add: first_seen_snoc set_labels_in_order)
  show ?case
  proof (cases "fst p \<in> fst ` set w")
    case True
    with same show ?thesis by (simp add: labels_in_order_snoc)
  next
    case False
    then have "\<forall>a \<in> set (labels_in_order w). first_seen (w @ [p]) a < first_seen (w @ [p]) (fst p)"
      by (auto simp: first_seen_snoc set_labels_in_order intro!: first_seen_less)
    with same False show ?thesis
      by (simp add: labels_in_order_snoc sorted_wrt_append)
  qed
qed


lemma fst_nth_first_seen: "l \<in> fst ` set w \<Longrightarrow> fst (w ! first_seen w l) = l"
  by (induction w) (auto simp: first_seen_def)

lemma stable_label_unique:
  assumes "stable_label fl w l" and "stable_label fl w l'"
  shows "l = l'"
proof -
  from assms have in_w: "l \<in> fst ` set w" "l' \<in> fst ` set w"
    by (simp_all add: stable_label_def)
  with assms have "mean_confidence fl w l = mean_confidence fl w l'"
    unfolding stable_label_def by (meson order_antisym)
  with assms in_w have "first_seen w l = first_seen w l'"
    unfolding stable_label_def by (metis order_antisym)
  with in_w show ?thesis by (metis fst_nth_first_seen)
qed

lemma smoothing_stable:
  assumes "w \<noteq> []"
  shows "\<exists>L. stable_label fl w L
           \<and> smoothing fl T w
             = Returned (if mean_confidence fl w L < T then ''neutral'' else L, mean_confidence fl w L)"
proof -
  let ?g = "\<lambda>l. (l, confidences_of w l)"
  let ?key = "\<lambda>x :: label \<times> real list. average fl (snd x)"
  have key: "?key (?g l) = mean_confidence fl w l" for l
    by (simp add: average_def mean_confidence_def)
  have items: "emotion_scores w = map ?g (labels_in_order w)"
    by (rule emotion_scores_closed)
  from assms have "labels_in_order w \<noteq> []"
    using set_labels_in_order [of w] by auto
  then obtain m where m: "py_max ?key (emotion_scores w) = Returned m"
    by (cases "labels_in_order w") (simp_all add: items py_max_def)
  from py_max_first_maximal [OF m] obtain ys zs where
    dec: "map ?g (labels_in_order w) = ys @ m # zs"
    and before: "\<forall>y \<in> set ys. ?key y < ?key m"
    and after: "\<forall>z \<in> set zs. ?key z \<le> ?key m"
    unfolding items by blast
  from dec obtain ys' L zs' where
    labels: "labels_in_order w = ys' @ L # zs'"
    and ys: "ys = map ?g ys'" and mL: "m = ?g L" and zs: "zs = map ?g zs'"
    by (auto simp: map_eq_append_conv map_eq_Cons_conv)
  have before': "\<forall>k \<in> set ys'. mean_confidence fl w k < mean_confidence fl w L"
    using before key unfolding ys mL by auto
  have after': "\<forall>k \<in> set zs'. mean_confidence fl w k \<le> mean_confidence fl w L"
    using after key unfolding zs mL by auto
  have later: "\<forall>k \<in> set zs'. first_seen w L < first_seen w k"
    using labels_in_order_sorted [of w] unfolding labels
    by (simp add: sorted_wrt_append)
  have members: "fst ` set w = set ys' \<union> {L} \<union> set zs'"
    using set_labels_in_order [of w] unfolding labels by auto
  have "stable_label fl w L"
    unfolding stable_label_def members using before' after' later
    by (auto simp: less_imp_le)
  moreover have "smoothing fl T w
      = Returned (if mean_confidence fl w L < T then ''neutral'' else L, mean_confidence fl w L)"
    using key [of L] by (simp add: smoothing_def m mL)
  ultimately show ?thesis by blast
qed

lemma deque_append_nonempty: "deque_append x xs \<noteq> []"
  by (simp add: deque_append_def maxlen_def)

lemma deque_append_length: "length (deque_append x xs) \<le> max maxlen (length xs)"
  by (simp add: deque_append_def maxlen_def)

lemma deque_append_bounded: "length xs \<le> maxlen \<Longrightarrow> length (deque_append x xs) \<le> maxlen"
  by (simp add: deque_append_def maxlen_def)

lemma deque_append_full:
  "length xs = maxlen \<Longrightarrow> deque_append x xs = tl xs @ [x]"
  by (cases xs) (simp_all add: deque_append_def maxlen_def)

lemma deque_append_room:
  "length xs < maxlen \<Longrightarrow> deque_append x xs = xs @ [x]"
  by (simp add: deque_append_def maxlen_def)

text \<open>
  C1.  On the path that reaches the smoothing fl (no cache hit, a frame captured, no
  personalised match, a classifier result), the sample is appended to the bounded window
  and the label returned is the stable label of the new window: the label of highest mean
  confidence over its occurrences there, the first seen one among equals.  When that mean
  is below the configured threshold the label returned is neutral instead.  The confidence
  returned is that mean.  The mean is the one the code computes, the sum of the
  confidences divided by their count in the machine's arithmetic.
\<close>

theorem smoothing_postcondition:
  assumes miss: "bypass_cache \<or> \<not> time_at_check env - cache_timestamp (emotion_cache_of s)
                     < real_of_int (EMOTION_CACHE_TTL cfg)"
    and frame: "ret env"
    and generic: "fst (personalized fl env user_id) = None"
    and raw: "analyze env = Returned (dominant_emotion, all_emotions)"
    and score: "all_emotions dominant_emotion = Some score"
    and window: "window = deque_append (bias_correction fl dominant_emotion (fdiv fl score 100) all_emotions)
                   (recent_emotions s)"
  shows "\<exists>L s'. stable_label fl window L \<and> (\<forall>L'. stable_label fl window L' \<longrightarrow> L' = L)
           \<and> detect_emotion_sync fl cfg env user_id bypass_cache s
             = Returned ((if mean_confidence fl window L < EMOTION_CONFIDENCE_THRESHOLD cfg
                          then ''neutral'' else L,
                          Fin (mean_confidence fl window L)), s')
           \<and> recent_emotions s' = window"
proof -
  have "window \<noteq> []" unfolding window by (rule deque_append_nonempty)
  from smoothing_stable [OF this, of fl "EMOTION_CONFIDENCE_THRESHOLD cfg"] obtain L where
    L: "stable_label fl window L"
    and sm: "smoothing fl (EMOTION_CONFIDENCE_THRESHOLD cfg) window
      = Returned (if mean_confidence fl window L < EMOTION_CONFIDENCE_THRESHOLD cfg
                  then ''neutral'' else L, mean_confidence fl window L)"
    by blast
  obtain called where pers: "personalized fl env user_id = (None, called)"
    using generic by (cases "personalized fl env user_id") simp
  have uniq: "\<forall>L'. stable_label fl window L' \<longrightarrow> L' = L"
    using L stable_label_unique by blast
  have "\<exists>s'. detect_emotion_sync fl cfg env user_id bypass_cache s
             = Returned ((if mean_confidence fl window L < EMOTION_CONFIDENCE_THRESHOLD cfg
                          then ''neutral'' else L,
                          Fin (mean_confidence fl window L)), s')
           \<and> recent_emotions s' = window"
    using miss frame sm
    by (cases called)
      (auto simp: detect_emotion_sync_def classify_and_smooth_def pers raw score window [symmetric]
        Let_def)
  with L uniq show ?thesis by blast
qed


theorem smoothing_postcondition_witness:
  "stable_label exact_arithmetic [(''happy'', 0.9), (''sad'', 0.9), (''happy'', 0.9)] ''happy''
   \<and> (\<exists>s'. detect_emotion_sync exact_arithmetic
          \<lparr>EMOTION_CACHE_TTL = 8, EMOTION_CONFIDENCE_THRESHOLD = 0.7\<rparr>
          \<lparr>time_at_check = 100, time_at_update = 101, ret = True, db = Returned [],
           represent = Raised, analyze = Returned (''happy'', [''happy'' \<mapsto> 90])\<rparr>
          None False
          \<lparr>recent_emotions = [(''happy'', 0.9), (''sad'', 0.9)],
           emotion_cache_of = \<lparr>cache_emotion = ''neutral'', cache_confidence = Fin 0,
             cache_timestamp = 0\<rparr>,
           calls = []\<rparr>
        = Returned ((''happy'', Fin 0.9), s')
        \<and> recent_emotions s' = [(''happy'', 0.9), (''sad'', 0.9), (''happy'', 0.9)])"
proof -
  let ?cfg = "\<lparr>EMOTION_CACHE_TTL = 8, EMOTION_CONFIDENCE_THRESHOLD = 0.7\<rparr>"
  let ?env = "\<lparr>time_at_check = 100, time_at_update = 101, ret = True, db = Returned [],
     represent = Raised, analyze = Returned (''happy'', [''happy'' \<mapsto> 90])\<rparr>"
  let ?s = "\<lparr>recent_emotions = [(''happy'', 0.9), (''sad'', 0.9)],
     emotion_cache_of = \<lparr>cache_emotion = ''neutral'', cache_confidence = Fin 0,
       cache_timestamp = 0\<rparr>,
     calls = []\<rparr>"
  let ?w = "[(''happy'', 0.9), (''sad'', 0.9), (''happy'', 0.9 :: real)]"
  have miss: "False \<or> \<not> time_at_check ?env - cache_timestamp (emotion_cache_of ?s)
                < real_of_int (EMOTION_CACHE_TTL ?cfg)"
    by simp
  have frame: "ret ?env" by simp
  have generic: "fst (personalized exact_arithmetic ?env None) = None"
    by (simp add: personalized_def)
  have raw: "analyze ?env = Returned (''happy'', [''happy'' \<mapsto> 90])" by simp
  have score: "[''happy'' \<mapsto> 90 :: real] ''happy'' = Some 90" by simp
  have window: "?w = deque_append (bias_correction exact_arithmetic ''happy''
                    (fdiv exact_arithmetic 90 100) [''happy'' \<mapsto> 90])
                  (recent_emotions ?s)"
    by (simp add: bias_correction_def deque_append_def maxlen_def exact_arithmetic_def)
  have mean: "mean_confidence exact_arithmetic ?w ''happy'' = 0.9" "mean_confidence exact_arithmetic ?w ''sad'' = 0.9"
    by (simp_all add: mean_confidence_def confidences_of_def exact_arithmetic_def)
  have stable: "stable_label exact_arithmetic ?w ''happy''"
    by (simp add: stable_label_def mean first_seen_def)
  from smoothing_postcondition [OF miss frame generic raw score window]
  obtain L s' where
    "\<forall>L'. stable_label exact_arithmetic ?w L' \<longrightarrow> L' = L"
    "detect_emotion_sync exact_arithmetic ?cfg ?env None False ?s
       = Returned ((if mean_confidence exact_arithmetic ?w L < EMOTION_CONFIDENCE_THRESHOLD ?cfg
                    then ''neutral'' else L, Fin (mean_confidence exact_arithmetic ?w L)), s')"
    "recent_emotions s' = ?w"
    by blast
  with stable mean show ?thesis by auto
qed

section \<open>Properties of the detector\<close>

text \<open>The detector always returns: the window it smooths is never empty.\<close>

lemma classify_and_smooth_returns:
  "\<exists>r s'. classify_and_smooth fl cfg env s = Returned (r, s')"
proof -
  have "smoothing fl T (deque_append x xs) \<noteq> Raised" for T x and xs :: "(label \<times> real) list"
    using smoothing_stable [OF deque_append_nonempty, where fl = fl and T = T and x1 = x and xs1 = xs]
    by auto
  then show ?thesis
    by (auto simp: classify_and_smooth_def Let_def split: outcome.splits option.splits prod.splits)
qed

lemma detect_emotion_sync_returns:
  "\<exists>r s'. detect_emotion_sync fl cfg env user_id bypass_cache s = Returned (r, s')"
  using classify_and_smooth_returns
  by (auto simp: detect_emotion_sync_def Let_def split: option.splits prod.splits)

lemma classify_and_smooth_cache:
  assumes "classify_and_smooth fl cfg env s = Returned (r, s')"
  shows "emotion_cache_of s' = emotion_cache_of s
         \<or> r = (cache_emotion (emotion_cache_of s'), cache_confidence (emotion_cache_of s'))"
  using assms
  by (auto simp: classify_and_smooth_def Let_def split: outcome.splits option.splits prod.splits)

lemma detect_emotion_sync_cache:
  assumes "detect_emotion_sync fl cfg env user_id False s = Returned (r, s')"
  shows "r = (cache_emotion (emotion_cache_of s'), cache_confidence (emotion_cache_of s'))
         \<or> (emotion_cache_of s' = emotion_cache_of s
             \<and> \<not> time_at_check env - cache_timestamp (emotion_cache_of s)
                   < real_of_int (EMOTION_CACHE_TTL cfg))"
proof (cases "time_at_check env - cache_timestamp (emotion_cache_of s)
                   < real_of_int (EMOTION_CACHE_TTL cfg)")
  case True
  with assms show ?thesis by (auto simp: detect_emotion_sync_def)
next
  case False
  with assms show ?thesis
    by (auto simp: detect_emotion_sync_def Let_def
        split: option.splits prod.splits if_splits dest!: classify_and_smooth_cache)
qed

text \<open>A run that does not answer from the cache captures a frame first.\<close>

lemma classify_and_smooth_calls:
  assumes "classify_and_smooth fl cfg env s = Returned (r, s')"
  shows "calls s' = calls s @ [Classify]"
  using assms
  by (auto simp: classify_and_smooth_def Let_def split: outcome.splits option.splits prod.splits)

lemma detect_emotion_sync_miss_calls:
  assumes "detect_emotion_sync fl cfg env user_id bypass_cache s = Returned (r, s')"
    and "bypass_cache \<or> \<not> time_at_check env - cache_timestamp (emotion_cache_of s)
                   < real_of_int (EMOTION_CACHE_TTL cfg)"
  shows "\<exists>rest. calls s' = calls s @ Capture # rest"
  using assms
  by (auto simp: detect_emotion_sync_def Let_def
      split: option.splits prod.splits if_splits dest!: classify_and_smooth_calls)

text \<open>
  C3.  After a call with \<open>bypass_cache\<close> false, a second such call whose clock reading is
  within the TTL of the cache timestamp returns the cached label and confidence and leaves
  the whole state as it was: the cache entry, the smoothing window and the record of
  external calls, so no frame is captured and nothing is classified.  When the clock has
  not gone backwards between the two calls, the pair returned is the one the first call
  returned.
\<close>

theorem cache_ttl:
  assumes first: "detect_emotion_sync fl cfg env1 user_id1 False s = Returned (r1, s1)"
    and within: "time_at_check env2 - cache_timestamp (emotion_cache_of s1)
                   < real_of_int (EMOTION_CACHE_TTL cfg)"
  shows "detect_emotion_sync fl cfg env2 user_id2 False s1
           = Returned ((cache_emotion (emotion_cache_of s1), cache_confidence (emotion_cache_of s1)), s1)
         \<and> (time_at_check env1 \<le> time_at_check env2 \<longrightarrow>
              r1 = (cache_emotion (emotion_cache_of s1), cache_confidence (emotion_cache_of s1)))"
proof
  show "detect_emotion_sync fl cfg env2 user_id2 False s1
           = Returned ((cache_emotion (emotion_cache_of s1), cache_confidence (emotion_cache_of s1)), s1)"
    using within by (simp add: detect_emotion_sync_def)
  show "time_at_check env1 \<le> time_at_check env2 \<longrightarrow>
              r1 = (cache_emotion (emotion_cache_of s1), cache_confidence (emotion_cache_of s1))"
    using detect_emotion_sync_cache [OF first] within by auto
qed


theorem cache_ttl_witness:
  "detect_emotion_sync exact_arithmetic
     \<lparr>EMOTION_CACHE_TTL = 8, EMOTION_CONFIDENCE_THRESHOLD = 0.7\<rparr>
     \<lparr>time_at_check = 100, time_at_update = 101, ret = True, db = Returned [],
      represent = Raised, analyze = Returned (''happy'', [''happy'' \<mapsto> 90])\<rparr>
     None False
     \<lparr>recent_emotions = [],
      emotion_cache_of = \<lparr>cache_emotion = ''neutral'', cache_confidence = Fin 0,
        cache_timestamp = 0\<rparr>,
      calls = []\<rparr>
   = Returned ((''happy'', Fin 0.9),
       \<lparr>recent_emotions = [(''happy'', 0.9)],
        emotion_cache_of = \<lparr>cache_emotion = ''happy'', cache_confidence = Fin 0.9,
          cache_timestamp = 101\<rparr>,
        calls = [Capture, Classify]\<rparr>)
   \<and> detect_emotion_sync exact_arithmetic
     \<lparr>EMOTION_CACHE_TTL = 8, EMOTION_CONFIDENCE_THRESHOLD = 0.7\<rparr>
     \<lparr>time_at_check = 105, time_at_update = 106, ret = True, db = Returned [],
      represent = Raised, analyze = Returned (''sad'', [''sad'' \<mapsto> 95])\<rparr>
     None False
     \<lparr>recent_emotions = [(''happy'', 0.9)],
      emotion_cache_of = \<lparr>cache_emotion = ''happy'', cache_confidence = Fin 0.9,
        cache_timestamp = 101\<rparr>,
      calls = [Capture, Classify]\<rparr>
   = Returned ((''happy'', Fin 0.9),
       \<lparr>recent_emotions = [(''happy'', 0.9)],
        emotion_cache_of = \<lparr>cache_emotion = ''happy'', cache_confidence = Fin 0.9,
          cache_timestamp = 101\<rparr>,
        calls = [Capture, Classify]\<rparr>)"
proof -
  let ?cfg = "\<lparr>EMOTION_CACHE_TTL = 8, EMOTION_CONFIDENCE_THRESHOLD = 0.7\<rparr>"
  let ?env1 = "\<lparr>time_at_check = 100, time_at_update = 101, ret = True, db = Returned [],
      represent = Raised, analyze = Returned (''happy'', [''happy'' \<mapsto> 90])\<rparr>"
  let ?env2 = "\<lparr>time_at_check = 105, time_at_update = 106, ret = True, db = Returned [],
      represent = Raised, analyze = Returned (''sad'', [''sad'' \<mapsto> 95])\<rparr>"
  let ?s = "\<lparr>recent_emotions = [],
      emotion_cache_of = \<lparr>cache_emotion = ''neutral'', cache_confidence = Fin 0,
        cache_timestamp = 0\<rparr>,
      calls = []\<rparr>"
  let ?s1 = "\<lparr>recent_emotions = [(''happy'', 0.9)],
        emotion_cache_of = \<lparr>cache_emotion = ''happy'', cache_confidence = Fin 0.9,
          cache_timestamp = 101\<rparr>,
        calls = [Capture, Classify]\<rparr>"
  have first: "detect_emotion_sync exact_arithmetic ?cfg ?env1 None False ?s = Returned ((''happy'', Fin 0.9), ?s1)"
    by (simp add: detect_emotion_sync_def classify_and_smooth_def personalized_def
        bias_correction_def deque_append_def maxlen_def smoothing_def emotion_scores_def
        py_max_def average_def Let_def exact_arithmetic_def)
  have within: "time_at_check ?env2 - cache_timestamp (emotion_cache_of ?s1)
                  < real_of_int (EMOTION_CACHE_TTL ?cfg)"
    by simp
  from cache_ttl [OF first within, of None] first show ?thesis by simp
qed

section \<open>Properties of the bias correction\<close>

lemma bias_correction_cases:
  assumes "emotion \<in> {''fear'', ''sad''}" and "confidence < 0.80"
    and "neutral_score = fdiv fl (case all_emotions ''neutral'' of None \<Rightarrow> 0 | Some v \<Rightarrow> v) 100"
    and "happy_score = fdiv fl (case all_emotions ''happy'' of None \<Rightarrow> 0 | Some v \<Rightarrow> v) 100"
  shows "bias_correction fl emotion confidence all_emotions
         = (if neutral_score > fsub fl confidence 0.15 then (''neutral'', neutral_score)
            else if happy_score > fsub fl confidence 0.15 then (''happy'', happy_score)
            else (emotion, confidence))"
  using assms by (auto simp: bias_correction_def Let_def)

lemma last_deque_append: "last (deque_append x xs) = x"
  by (simp add: deque_append_def maxlen_def)

lemma detect_emotion_sync_sample:
  assumes miss: "bypass_cache \<or> \<not> time_at_check env - cache_timestamp (emotion_cache_of s)
                     < real_of_int (EMOTION_CACHE_TTL cfg)"
    and frame: "ret env"
    and generic: "fst (personalized fl env user_id) = None"
    and raw: "analyze env = Returned (dominant_emotion, all_emotions)"
    and score: "all_emotions dominant_emotion = Some score"
  shows "\<exists>r s'. detect_emotion_sync fl cfg env user_id bypass_cache s = Returned (r, s')
           \<and> last (recent_emotions s') = bias_correction fl dominant_emotion (fdiv fl score 100) all_emotions"
proof -
  let ?w = "deque_append (bias_correction fl dominant_emotion (fdiv fl score 100) all_emotions)
              (recent_emotions s)"
  have "?w \<noteq> []" by (rule deque_append_nonempty)
  from smoothing_stable [OF this, of fl "EMOTION_CONFIDENCE_THRESHOLD cfg"]
  obtain e c where sm: "smoothing fl (EMOTION_CONFIDENCE_THRESHOLD cfg) ?w = Returned (e, c)"
    by blast
  obtain called where pers: "personalized fl env user_id = (None, called)"
    using generic by (cases "personalized fl env user_id") simp
  show ?thesis
    using miss frame sm
    by (cases called)
      (auto simp: detect_emotion_sync_def classify_and_smooth_def pers raw score Let_def
        last_deque_append)
qed

text \<open>
  C2.  On the path of the detector that runs the classifier, let the raw dominant label be
  fear or sad with confidence below 0.80.  If the neutral score is within 0.15 of the raw
  confidence (above confidence - 0.15, the difference as the machine computes it), the
  sample that enters the window is neutral with the neutral score as confidence; otherwise,
  if the happy score is within 0.15, it is happy with the happy score.  Raw fear at 0.75
  with neutral at 0.65 gives neutral at 0.65.
\<close>

theorem bias_correction_override:
  assumes miss: "bypass_cache \<or> \<not> time_at_check env - cache_timestamp (emotion_cache_of s)
                     < real_of_int (EMOTION_CACHE_TTL cfg)"
    and frame: "ret env"
    and generic: "fst (personalized fl env user_id) = None"
    and raw: "analyze env = Returned (emotion, all_emotions)"
    and score: "all_emotions emotion = Some score"
    and confidence: "confidence = fdiv fl score 100"
    and prone: "emotion \<in> {''fear'', ''sad''}" and low: "confidence < 0.80"
    and neutral: "neutral_score = fdiv fl (case all_emotions ''neutral'' of None \<Rightarrow> 0 | Some v \<Rightarrow> v) 100"
    and happy: "happy_score = fdiv fl (case all_emotions ''happy'' of None \<Rightarrow> 0 | Some v \<Rightarrow> v) 100"
  shows "(neutral_score > fsub fl confidence 0.15 \<longrightarrow>
            bias_correction fl emotion confidence all_emotions = (''neutral'', neutral_score)
            \<and> (\<exists>r s'. detect_emotion_sync fl cfg env user_id bypass_cache s = Returned (r, s')
                  \<and> last (recent_emotions s') = (''neutral'', neutral_score)))
         \<and> (\<not> neutral_score > fsub fl confidence 0.15 \<and> happy_score > fsub fl confidence 0.15 \<longrightarrow>
            bias_correction fl emotion confidence all_emotions = (''happy'', happy_score)
            \<and> (\<exists>r s'. detect_emotion_sync fl cfg env user_id bypass_cache s = Returned (r, s')
                  \<and> last (recent_emotions s') = (''happy'', happy_score)))"
  using detect_emotion_sync_sample [OF miss frame generic raw score]
    bias_correction_cases [OF prone low neutral happy]
  by (auto simp: confidence)

theorem bias_correction_override_witness:
  "bias_correction exact_arithmetic ''fear'' 0.75 [''fear'' \<mapsto> 75, ''neutral'' \<mapsto> 65]
     = (''neutral'', 0.65)
   \<and> (\<exists>r s'. detect_emotion_sync exact_arithmetic
          \<lparr>EMOTION_CACHE_TTL = 8, EMOTION_CONFIDENCE_THRESHOLD = 0.7\<rparr>
          \<lparr>time_at_check = 100, time_at_update = 101, ret = True, db = Returned [],
           represent = Raised,
           analyze = Returned (''fear'', [''fear'' \<mapsto> 75, ''neutral'' \<mapsto> 65])\<rparr>
          None False
          \<lparr>recent_emotions = [(''happy'', 0.9)],
           emotion_cache_of = \<lparr>cache_emotion = ''neutral'', cache_confidence = Fin 0,
             cache_timestamp = 0\<rparr>,
           calls = []\<rparr>
        = Returned (r, s')
        \<and> last (recent_emotions s') = (''neutral'', 0.65))
   \<and> bias_correction exact_arithmetic ''sad'' 0.7
         [''sad'' \<mapsto> 70, ''neutral'' \<mapsto> 10, ''happy'' \<mapsto> 60]
       = (''happy'', 0.6)"
proof -
  let ?fl = exact_arithmetic
  let ?cfg = "\<lparr>EMOTION_CACHE_TTL = 8, EMOTION_CONFIDENCE_THRESHOLD = 0.7\<rparr>"
  let ?all = "[''fear'' \<mapsto> 75, ''neutral'' \<mapsto> 65 :: real]"
  let ?env = "\<lparr>time_at_check = 100, time_at_update = 101, ret = True, db = Returned [],
     represent = Raised, analyze = Returned (''fear'', ?all)\<rparr>"
  let ?s = "\<lparr>recent_emotions = [(''happy'', 0.9)],
     emotion_cache_of = \<lparr>cache_emotion = ''neutral'', cache_confidence = Fin 0,
       cache_timestamp = 0\<rparr>,
     calls = []\<rparr>"
  let ?all' = "[''sad'' \<mapsto> 70, ''neutral'' \<mapsto> 10, ''happy'' \<mapsto> 60 :: real]"
  let ?env' = "\<lparr>time_at_check = 100, time_at_update = 101, ret = True, db = Returned [],
     represent = Raised, analyze = Returned (''sad'', ?all')\<rparr>"
  have miss: "False \<or> \<not> time_at_check ?env - cache_timestamp (emotion_cache_of ?s)
                < real_of_int (EMOTION_CACHE_TTL ?cfg)"
    and miss': "False \<or> \<not> time_at_check ?env' - cache_timestamp (emotion_cache_of ?s)
                < real_of_int (EMOTION_CACHE_TTL ?cfg)"
    by simp_all
  have frame: "ret ?env" and frame': "ret ?env'" by simp_all
  have generic: "fst (personalized ?fl ?env None) = None"
    and generic': "fst (personalized ?fl ?env' None) = None"
    by (simp_all add: personalized_def)
  have raw: "analyze ?env = Returned (''fear'', ?all)"
    and raw': "analyze ?env' = Returned (''sad'', ?all')" by simp_all
  have score: "?all ''fear'' = Some 75" and score': "?all' ''sad'' = Some 70" by simp_all
  have confidence: "(0.75 :: real) = fdiv ?fl 75 100"
    and confidence': "(0.7 :: real) = fdiv ?fl 70 100"
    by (simp_all add: exact_arithmetic_def)
  have prone: "''fear'' \<in> {''fear'', ''sad''}" and prone': "''sad'' \<in> {''fear'', ''sad''}"
    by simp_all
  have low: "(0.75 :: real) < 0.80" and low': "(0.7 :: real) < 0.80" by simp_all
  have neutral: "(0.65 :: real) = fdiv ?fl (case ?all ''neutral'' of None \<Rightarrow> 0 | Some v \<Rightarrow> v) 100"
    and neutral': "(0.1 :: real) = fdiv ?fl (case ?all' ''neutral'' of None \<Rightarrow> 0 | Some v \<Rightarrow> v) 100"
    by (simp_all add: exact_arithmetic_def)
  have happy: "(0 :: real) = fdiv ?fl (case ?all ''happy'' of None \<Rightarrow> 0 | Some v \<Rightarrow> v) 100"
    and happy': "(0.6 :: real) = fdiv ?fl (case ?all' ''happy'' of None \<Rightarrow> 0 | Some v \<Rightarrow> v) 100"
    by (simp_all add: exact_arithmetic_def)
  have within: "(0.65 :: real) > fsub ?fl 0.75 0.15"
    and within': "\<not> (0.1 :: real) > fsub ?fl 0.7 0.15 \<and> (0.6 :: real) > fsub ?fl 0.7 0.15"
    by (simp_all add: exact_arithmetic_def)
  from bias_correction_override [OF miss frame generic raw score confidence prone low neutral happy]
    within
  have "bias_correction ?fl ''fear'' 0.75 ?all = (''neutral'', 0.65)
        \<and> (\<exists>r s'. detect_emotion_sync ?fl ?cfg ?env None False ?s = Returned (r, s')
              \<and> last (recent_emotions s') = (''neutral'', 0.65))"
    by blast
  moreover
  from bias_correction_override [OF miss' frame' generic' raw' score' confidence' prone' low' neutral' happy']
    within'
  have "bias_correction ?fl ''sad'' 0.7 ?all' = (''happy'', 0.6)"
    by blast
  ultimately show ?thesis by blast
qed

section \<open>Properties of the calibration store\<close>

subsection \<open>Cosine similarity\<close>

lemma sum_squares_zero: "sum_list (map (\<lambda>a. a * a) vec) = 0 \<longleftrightarrow> (\<forall>x \<in> set vec. x = (0::real))"
proof (induction vec)
  case Nil
  show ?case by simp
next
  case (Cons a vec)
  have "0 \<le> sum_list (map (\<lambda>a. a * a) vec)"
    by (rule sum_list_nonneg) auto
  moreover have "0 \<le> a * a" by simp
  ultimately have "a * a + sum_list (map (\<lambda>a. a * a) vec) = 0
      \<longleftrightarrow> a * a = 0 \<and> sum_list (map (\<lambda>a. a * a) vec) = 0"
    by (rule add_nonneg_eq_0_iff [OF _ _, rotated -1]) 
  with Cons show ?case by simp
qed

lemma norm2_zero_iff: "norm2 vec = 0 \<longleftrightarrow> \<not> nonzero vec"
  by (simp add: norm2_def nonzero_def sum_squares_zero)

lemma dot_zero_left: "\<not> nonzero vec1 \<Longrightarrow> dot vec1 vec2 = 0"
  unfolding dot_def nonzero_def
proof (induction vec1 arbitrary: vec2)
  case Nil
  show ?case by simp
next
  case (Cons a vec1)
  then show ?case by (cases vec2) auto
qed

lemma dot_zero_right: "\<not> nonzero vec2 \<Longrightarrow> dot vec1 vec2 = 0"
  unfolding dot_def nonzero_def
proof (induction vec2 arbitrary: vec1)
  case Nil
  show ?case by simp
next
  case (Cons a vec2)
  then show ?case by (cases vec1) auto
qed

lemma cosine_similarity_exact:
  assumes "length vec1 = length vec2"
  shows "(nonzero vec1 \<and> nonzero vec2 \<longrightarrow>
            cosine_similarity exact_arithmetic vec1 vec2
            = Returned (Fin (dot vec1 vec2 / (norm2 vec1 * norm2 vec2))))
         \<and> (\<not> (nonzero vec1 \<and> nonzero vec2) \<longrightarrow>
            norm2 vec1 * norm2 vec2 = 0
            \<and> cosine_similarity exact_arithmetic vec1 vec2 = Returned NaN)"
proof (cases "nonzero vec1 \<and> nonzero vec2")
  case True
  then have "norm2 vec1 * norm2 vec2 \<noteq> 0"
    by (simp add: norm2_zero_iff)
  with assms True show ?thesis
    by (simp add: cosine_similarity_def np_div_def exact_arithmetic_def)
next
  case False
  then have "norm2 vec1 * norm2 vec2 = 0" "dot vec1 vec2 = 0"
    using dot_zero_left [of vec1 vec2] dot_zero_right [of vec2 vec1]
    by (auto simp: norm2_zero_iff)
  with assms False show ?thesis
    by (simp add: cosine_similarity_def np_div_def exact_arithmetic_def)
qed

lemma cosine_similarity_machine:
  assumes "length vec1 = length vec2"
  shows "(norm_product fl vec1 vec2 \<noteq> 0 \<longrightarrow>
            cosine_similarity fl vec1 vec2
            = Returned (Fin (fdiv fl (np_dot fl vec1 vec2) (norm_product fl vec1 vec2))))
         \<and> (norm_product fl vec1 vec2 = 0 \<longrightarrow>
            cosine_similarity fl vec1 vec2 \<in> {Returned NaN, Returned PInf, Returned NInf})"
  using assms by (simp add: cosine_similarity_def np_div_def norm_product_def)

lemma norm2_unit: "norm2 [1, 0] = 1" "norm2 [-1, 0] = 1" "norm2 [0, 1] = 1"
  by (simp_all add: norm2_def)

text \<open>
  C8, as the code has it.  \<^verbatim>\<open>cosine_similarity\<close> has no guard against a zero norm.
  For two vectors of one length, in exact arithmetic: when both are nonzero the result is
  the dot product divided by the product of the norms; when either is all zeros the divisor
  is zero and the numpy division of zero by zero returns nan, without raising.  On the
  machine: when the product of the norms it computes is not zero the result is the quotient
  it computes, and when that product is zero the division takes place all the same and
  returns nan or an infinity.
\<close>

theorem cosine_similarity_unguarded:
  assumes "length vec1 = length vec2"
  shows "(nonzero vec1 \<and> nonzero vec2 \<longrightarrow>
            cosine_similarity exact_arithmetic vec1 vec2
            = Returned (Fin (dot vec1 vec2 / (norm2 vec1 * norm2 vec2))))
         \<and> (\<not> (nonzero vec1 \<and> nonzero vec2) \<longrightarrow>
            norm2 vec1 * norm2 vec2 = 0
            \<and> cosine_similarity exact_arithmetic vec1 vec2 = Returned NaN)
         \<and> (norm_product fl vec1 vec2 \<noteq> 0 \<longrightarrow>
            cosine_similarity fl vec1 vec2
            = Returned (Fin (fdiv fl (np_dot fl vec1 vec2) (norm_product fl vec1 vec2))))
         \<and> (norm_product fl vec1 vec2 = 0 \<longrightarrow>
            cosine_similarity fl vec1 vec2 \<in> {Returned NaN, Returned PInf, Returned NInf})"
  using cosine_similarity_exact [OF assms] cosine_similarity_machine [OF assms, of fl]
  by blast

theorem cosine_similarity_unguarded_witness:
  "cosine_similarity exact_arithmetic [1, 0] [0, 1] = Returned (Fin 0)
   \<and> cosine_similarity exact_arithmetic [1, 0] [-1, 0] = Returned (Fin (- 1))
   \<and> cosine_similarity exact_arithmetic [0, 0] [1, 0] = Returned NaN"
proof -
  have len: "length [1, 0 :: real] = length [0, 1 :: real]"
    "length [1, 0 :: real] = length [-1, 0 :: real]"
    "length [0, 0 :: real] = length [1, 0 :: real]" by simp_all
  have nz: "nonzero [1, 0]" "nonzero [0, 1]" "nonzero [-1, 0]" "\<not> nonzero [0, 0]"
    by (simp_all add: nonzero_def)
  show ?thesis
    using cosine_similarity_unguarded [OF len(1), of exact_arithmetic]
      cosine_similarity_unguarded [OF len(2), of exact_arithmetic]
      cosine_similarity_unguarded [OF len(3), of exact_arithmetic] nz
    by (simp add: norm2_unit dot_def)
qed

text \<open>
  The claim as stated fails for a zero vector: the product of the norms is zero, the
  division takes place, and the result is nan.
\<close>

theorem cosine_similarity_zero_vector:
  "norm2 [0, 0] * norm2 [1, 2] = 0
   \<and> cosine_similarity exact_arithmetic [0, 0] [1, 2] = Returned NaN"
  by (simp add: cosine_similarity_def np_div_def norm2_def dot_def exact_arithmetic_def)

subsection \<open>Matching against the stored samples\<close>

lemma similarities_finite:
  assumes "\<forall>emb \<in> set embs. length emb = length cur \<and> norm_product fl cur emb \<noteq> 0"
  shows "similarities fl cur embs
         = Returned (map (\<lambda>emb. Fin (fdiv fl (np_dot fl cur emb) (norm_product fl cur emb))) embs)"
  using assms
proof (induction embs)
  case Nil
  show ?case by simp
next
  case (Cons emb embs)
  then have "length cur = length emb" "norm_product fl cur emb \<noteq> 0" by simp_all
  then have "cosine_similarity fl cur emb
      = Returned (Fin (fdiv fl (np_dot fl cur emb) (norm_product fl cur emb)))"
    using cosine_similarity_machine [of cur emb fl] by simp
  with Cons show ?case by simp
qed

lemma finite_values_Fin: "finite_values (map Fin xs) = Some xs"
  by (induction xs) simp_all

lemma np_mean_Fin: "xs \<noteq> [] \<Longrightarrow> np_mean fl (map Fin xs) = Fin (np_mean_values fl xs)"
  by (simp add: np_mean_def finite_values_Fin)

lemma np_mean_similarities:
  assumes "\<forall>emb \<in> set embs. length emb = length cur \<and> norm_product fl cur emb \<noteq> 0"
    and "embs \<noteq> []"
  shows "\<exists>sims. similarities fl cur embs = Returned sims
           \<and> np_mean fl sims = Fin (average_similarity fl cur embs)"
proof -
  let ?c = "\<lambda>emb. fdiv fl (np_dot fl cur emb) (norm_product fl cur emb)"
  have "similarities fl cur embs = Returned (map Fin (map ?c embs))"
    using similarities_finite [OF assms(1)] by (simp add: comp_def)
  moreover have "np_mean fl (map Fin (map ?c embs)) = Fin (average_similarity fl cur embs)"
    using assms(2) np_mean_Fin [of "map ?c embs" fl] by (simp add: average_similarity_def)
  ultimately show ?thesis by blast
qed

lemma match_loop_finite:
  assumes "\<forall>(l, embs) \<in> set data.
             embs \<noteq> [] \<and> (\<forall>emb \<in> set embs. length emb = length cur \<and> norm_product fl cur emb \<noteq> 0)"
  shows "\<exists>bm' bs'. match_loop fl cur data (bm, Fin bs) = Returned (bm', Fin bs')
           \<and> (\<forall>(l, embs) \<in> set data. average_similarity fl cur embs \<le> bs')
           \<and> (bs' = bs \<and> bm' = bm
               \<or> bs < bs' \<and> (\<exists>l embs. (l, embs) \<in> set data \<and> bm' = Some l
                     \<and> average_similarity fl cur embs = bs'))"
  using assms
proof (induction data arbitrary: bm bs)
  case Nil
  show ?case by simp
next
  case (Cons p data)
  obtain l embs where p: "p = (l, embs)" by (cases p)
  from Cons.prems have embs: "embs \<noteq> []"
      "\<forall>emb \<in> set embs. length emb = length cur \<and> norm_product fl cur emb \<noteq> 0"
    and rest: "\<forall>(l, embs) \<in> set data.
      embs \<noteq> [] \<and> (\<forall>emb \<in> set embs. length emb = length cur \<and> norm_product fl cur emb \<noteq> 0)"
    by (simp_all add: p)
  from np_mean_similarities [OF embs(2,1)] obtain sims where
    sims: "similarities fl cur embs = Returned sims"
      "np_mean fl sims = Fin (average_similarity fl cur embs)"
    by blast
  let ?a = "average_similarity fl cur embs"
  show ?case
  proof (cases "?a > bs")
    case True
    from Cons.IH [OF rest, of "Some l" ?a] obtain bm' bs' where
      "match_loop fl cur data (Some l, Fin ?a) = Returned (bm', Fin bs')"
      "\<forall>(l, embs) \<in> set data. average_similarity fl cur embs \<le> bs'"
      "bs' = ?a \<and> bm' = Some l
        \<or> ?a < bs' \<and> (\<exists>l embs. (l, embs) \<in> set data \<and> bm' = Some l
              \<and> average_similarity fl cur embs = bs')"
      by blast
    with True show ?thesis
      by (auto simp: p sims Let_def intro!: exI [of _ bm'] exI [of _ bs'])
  next
    case False
    from Cons.IH [OF rest, of bm bs] obtain bm' bs' where
      "match_loop fl cur data (bm, Fin bs) = Returned (bm', Fin bs')"
      "\<forall>(l, embs) \<in> set data. average_similarity fl cur embs \<le> bs'"
      "bs' = bs \<and> bm' = bm
        \<or> bs < bs' \<and> (\<exists>l embs. (l, embs) \<in> set data \<and> bm' = Some l
              \<and> average_similarity fl cur embs = bs')"
      by blast
    with False show ?thesis
      by (auto simp: p sims Let_def intro!: exI [of _ bm'] exI [of _ bs'])
  qed
qed

lemma dict_append_nonempty_groups:
  "\<forall>(k, vs) \<in> set d. vs \<noteq> [] \<Longrightarrow> \<forall>(k, vs) \<in> set (dict_append k' v d). vs \<noteq> []"
  by (induction d) (auto split: if_splits)

lemma foldl_dict_append_nonempty_groups:
  "\<forall>(k, vs) \<in> set d. vs \<noteq> []
   \<Longrightarrow> \<forall>(k, vs) \<in> set (foldl (\<lambda>d (u, k, v). dict_append k v d) d rows). vs \<noteq> []"
proof (induction rows arbitrary: d)
  case Nil
  then show ?case by simp
next
  case (Cons row rows)
  obtain u k v where "row = (u, k, v)" by (cases row)
  with Cons.prems show ?case
    using Cons.IH [OF dict_append_nonempty_groups [OF Cons.prems, of k v]] by simp
qed

lemma get_user_calibration_nonempty_groups:
  "\<forall>(emotion, embeddings) \<in> set (get_user_calibration tbl user_id). embeddings \<noteq> []"
proof (cases tbl)
  case Raised
  then show ?thesis by (simp add: get_user_calibration_def)
next
  case (Returned table)
  have "\<forall>(k, vs) \<in> set ([] :: (label \<times> real list list) list). vs \<noteq> []" by simp
  from foldl_dict_append_nonempty_groups [OF this] Returned show ?thesis
    by (simp add: get_user_calibration_def)
qed

text \<open>
  C9, as the code has it.  For a user with stored samples and a current embedding, all
  vectors of one length and no product of norms zero, let \<open>best\<close> be the highest average
  similarity over the calibrated labels, the averages as the machine computes them.  When
  \<open>best\<close> exceeds 0.7 the result is a label whose average is \<open>best\<close>, with
  \<open>best\<close>; otherwise no label is returned, together with \<open>best\<close>, or with 0.0 when
  \<open>best\<close> is negative: the running best similarity starts at 0.0.
\<close>

theorem match_emotion_threshold:
  assumes data: "get_user_calibration tbl user_id = calibration_data"
    and stored: "calibration_data \<noteq> []"
    and rep: "rep = Returned (current_vector # others)"
    and embs: "\<forall>(emotion, embeddings) \<in> set calibration_data.
                 \<forall>emb \<in> set embeddings.
                   length emb = length current_vector \<and> norm_product fl current_vector emb \<noteq> 0"
    and best: "best = Max ((\<lambda>(emotion, embeddings). average_similarity fl current_vector embeddings)
                             ` set calibration_data)"
  shows "(best > 0.7 \<longrightarrow>
            (\<exists>emotion embeddings. (emotion, embeddings) \<in> set calibration_data
               \<and> average_similarity fl current_vector embeddings = best
               \<and> match_emotion fl tbl rep user_id = (Some emotion, Fin best)))
         \<and> (\<not> best > 0.7 \<longrightarrow> match_emotion fl tbl rep user_id = (None, Fin (max 0 best)))"
proof -
  let ?avg = "\<lambda>(emotion, embeddings). average_similarity fl current_vector embeddings"
  have good: "\<forall>(l, embs) \<in> set calibration_data.
      embs \<noteq> []
      \<and> (\<forall>emb \<in> set embs. length emb = length current_vector
            \<and> norm_product fl current_vector emb \<noteq> 0)"
    using embs get_user_calibration_nonempty_groups [of tbl user_id] unfolding data by fast
  from match_loop_finite [OF good, of None 0] obtain bm' bs' where
    loop: "match_loop fl current_vector calibration_data (None, Fin 0) = Returned (bm', Fin bs')"
    and upper: "\<forall>(l, embs) \<in> set calibration_data. average_similarity fl current_vector embs \<le> bs'"
    and how: "bs' = 0 \<and> bm' = None
        \<or> 0 < bs' \<and> (\<exists>l embs. (l, embs) \<in> set calibration_data \<and> bm' = Some l
              \<and> average_similarity fl current_vector embs = bs')"
    by blast
  have fin: "finite (?avg ` set calibration_data)" "?avg ` set calibration_data \<noteq> {}"
    using stored by simp_all
  have le: "best \<le> bs'"
    unfolding best using upper fin by auto
  have result: "match_emotion fl tbl rep user_id
      = (if bs' > 0.7 then (bm', Fin bs') else (None, Fin bs'))"
    using stored by (simp add: match_emotion_def data rep loop)
  from how show ?thesis
  proof
    assume zero: "bs' = 0 \<and> bm' = None"
    with le have "max 0 best = 0" "\<not> best > 0.7" by simp_all
    with zero result show ?thesis by simp
  next
    assume "0 < bs' \<and> (\<exists>l embs. (l, embs) \<in> set calibration_data \<and> bm' = Some l
              \<and> average_similarity fl current_vector embs = bs')"
    then obtain l embs where pos: "0 < bs'" and mem: "(l, embs) \<in> set calibration_data"
      and bm': "bm' = Some l" and avg: "average_similarity fl current_vector embs = bs'"
      by blast
    from mem avg have "bs' \<in> ?avg ` set calibration_data" by force
    then have "bs' \<le> best" unfolding best using fin by simp
    with le have eq: "bs' = best" by simp
    with pos have "max 0 best = best" by simp
    with eq result mem bm' avg show ?thesis by auto
  qed
qed

theorem match_emotion_threshold_witness:
  "(\<exists>emotion. match_emotion exact_arithmetic
       (Returned [(1, ''happy'', [1, 0]), (2, ''sad'', [1, 0]), (1, ''sad'', [0, 1])])
       (Returned [[1, 0]]) 1 = (Some emotion, Fin 1))
   \<and> match_emotion exact_arithmetic (Returned [(1, ''happy'', [1, 0])]) (Returned [[-1, 0]]) 1
       = (None, Fin 0)"
proof -
  let ?fl = exact_arithmetic
  let ?tbl = "Returned [(1, ''happy'', [1, 0]), (2, ''sad'', [1, 0]), (1, ''sad'', [0, 1])] :: database"
  let ?data = "[(''happy'', [[1, 0]]), (''sad'', [[0, 1 :: real]])]"
  let ?tbl' = "Returned [(1, ''happy'', [1, 0])] :: database"
  let ?data' = "[(''happy'', [[1, 0 :: real]])]"
  have data: "get_user_calibration ?tbl 1 = ?data" "get_user_calibration ?tbl' 1 = ?data'"
    by (simp_all add: get_user_calibration_def)
  have stored: "?data \<noteq> []" "?data' \<noteq> []" by simp_all
  have rep: "Returned [[1, 0 :: real]] = Returned ([1, 0] # [])"
    "Returned [[-1, 0 :: real]] = Returned ([-1, 0] # [])" by simp_all
  have embs: "\<forall>(emotion, embeddings) \<in> set ?data.
      \<forall>emb \<in> set embeddings. length emb = length [1, 0 :: real] \<and> norm_product ?fl [1, 0] emb \<noteq> 0"
    "\<forall>(emotion, embeddings) \<in> set ?data'.
      \<forall>emb \<in> set embeddings. length emb = length [-1, 0 :: real] \<and> norm_product ?fl [-1, 0] emb \<noteq> 0"
    by (simp_all add: norm_product_def exact_arithmetic_def norm2_unit)
  have best: "(1 :: real) = Max ((\<lambda>(emotion, embeddings). average_similarity ?fl [1, 0] embeddings) ` set ?data)"
    "(- 1 :: real) = Max ((\<lambda>(emotion, embeddings). average_similarity ?fl [-1, 0] embeddings) ` set ?data')"
    by (simp_all add: average_similarity_def norm_product_def exact_arithmetic_def norm2_unit dot_def)
  from match_emotion_threshold [OF data(1) stored(1) rep(1) embs(1) best(1)]
  have "\<exists>emotion. match_emotion ?fl ?tbl (Returned [[1, 0]]) 1 = (Some emotion, Fin 1)"
    by auto
  moreover
  from match_emotion_threshold [OF data(2) stored(2) rep(2) embs(2) best(2)]
  have "match_emotion ?fl ?tbl' (Returned [[-1, 0]]) 1 = (None, Fin 0)"
    by simp
  ultimately show ?thesis by blast
qed

text \<open>
  The claim as stated fails when every average is negative: the one stored sample is
  opposite to the current embedding, the best similarity found is -1, and 0.0 is returned.
  The numbers involved are small integers, on which the machine's arithmetic is exact.
\<close>

theorem match_emotion_floor_at_zero:
  "average_similarity exact_arithmetic [-1, 0] [[1, 0]] = - 1
   \<and> match_emotion exact_arithmetic (Returned [(1, ''happy'', [1, 0])]) (Returned [[-1, 0]]) 1
       = (None, Fin 0)"
  by (simp add: average_similarity_def norm_product_def match_emotion_def
      get_user_calibration_def cosine_similarity_def np_div_def np_mean_def norm2_unit dot_def
      exact_arithmetic_def)

end
